theory Spec2Isabelle
  imports Main
begin

section \<open>Python values, strings and exceptions\<close>

text \<open>
  A Python \<open>str\<close> is a sequence of Unicode code points; \<open>len\<close> counts code points.
  The values that reach the validated fields are \<open>None\<close>, booleans, integers and strings.
\<close>

type_synonym pystr = "nat list"

datatype pyval = PyNone | PyBool bool | PyInt int | PyStr pystr

text \<open>
  Every \<open>raise\<close> of the source raises \<open>ValueError\<close> with one of four messages:
  the name rule (line 18), the age rule (line 35), the phone rule (line 52) and
  "an appointment is already scheduled" (line 70).
\<close>

datatype message = Name_message | Age_message | Phone_message | Appointment_message

datatype py_error = ValueError message | AttributeError | FileNotFoundError | UnpicklingError

text \<open>
  The specification calls the first three \<open>ValidationError\<close> and the fourth
  \<open>ConflictError\<close>.
\<close>

definition ValidationError :: "py_error \<Rightarrow> bool" where
  "ValidationError e =
     (e = ValueError Name_message \<or> e = ValueError Age_message \<or> e = ValueError Phone_message)"

definition ConflictError :: "py_error \<Rightarrow> bool" where
  "ConflictError e = (e = ValueError Appointment_message)"

text \<open>
  \<open>isinstance(value, str)\<close> and \<open>isinstance(value, int)\<close>. In Python \<open>bool\<close> is a
  subclass of \<open>int\<close>, with \<open>True == 1\<close> and \<open>False == 0\<close>.
\<close>

fun isinstance_str :: "pyval \<Rightarrow> bool" where
  "isinstance_str (PyStr s) = True"
| "isinstance_str v = False"

fun isinstance_int :: "pyval \<Rightarrow> bool" where
  "isinstance_int (PyInt i) = True"
| "isinstance_int (PyBool b) = True"
| "isinstance_int v = False"

fun str_value :: "pyval \<Rightarrow> pystr" where
  "str_value (PyStr s) = s"
| "str_value v = []"

fun int_value :: "pyval \<Rightarrow> int" where
  "int_value (PyInt i) = i"
| "int_value (PyBool b) = (if b then 1 else 0)"
| "int_value v = 0"

subsection \<open>The Unicode tables of the runtime\<close>

text \<open>
  \<open>str.strip\<close>, \<open>str.isdigit\<close> and \<open>str.lower\<close> consult the Unicode character database
  of the Python runtime, which is not part of this repository. It is a parameter of the
  model: which code points are whitespace, which are digits (Numeric_Type Digit or
  Decimal), and how a string is lowercased.
\<close>

record unicode_db =
  isspace :: "nat \<Rightarrow> bool"
  isdigit :: "nat \<Rightarrow> bool"
  lower :: "pystr \<Rightarrow> pystr"

definition str_strip :: "unicode_db \<Rightarrow> pystr \<Rightarrow> pystr" where
  "str_strip U s = rev (dropWhile (isspace U) (rev (dropWhile (isspace U) s)))"

definition str_isdigit :: "unicode_db \<Rightarrow> pystr \<Rightarrow> bool" where
  "str_isdigit U s = (s \<noteq> [] \<and> list_all (isdigit U) s)"

text \<open>
  The tables on the code points below 256 (Latin-1), as CPython has them: whitespace is
  TAB, LF, VT, FF, CR, FS, GS, RS, US, SPACE, NEL and NBSP; the digits are \<open>0\<close> to \<open>9\<close>
  and the superscripts two, three and one (178, 179, 185); \<open>A\<close> to \<open>Z\<close> and 192 to 222
  except the multiplication sign 215 lowercase by adding 32. It serves to evaluate the
  model on concrete Latin-1 strings only.
\<close>

definition latin1_isspace :: "nat \<Rightarrow> bool" where
  "latin1_isspace c = (c \<in> set [9, 10, 11, 12, 13, 28, 29, 30, 31, 32, 133, 160])"

definition latin1_isdigit :: "nat \<Rightarrow> bool" where
  "latin1_isdigit c = ((48 \<le> c \<and> c \<le> 57) \<or> c \<in> set [178, 179, 185])"

definition latin1_lower :: "nat \<Rightarrow> nat" where
  "latin1_lower c =
     (if (65 \<le> c \<and> c \<le> 90) \<or> (192 \<le> c \<and> c \<le> 222 \<and> c \<noteq> 215) then c + 32 else c)"

definition latin1 :: unicode_db where
  "latin1 = \<lparr>isspace = latin1_isspace, isdigit = latin1_isdigit, lower = map latin1_lower\<rparr>"

text \<open>An ASCII literal as a Python string.\<close>

definition py :: "string \<Rightarrow> pystr" where
  "py s = map of_char s"


section \<open>The descriptors\<close>

text \<open>
  A method that mutates its object returns the raised exception or the returned value,
  and the object as it is afterwards.

  A descriptor's \<open>__set__\<close> writes \<open>instance.__dict__[self.name]\<close>, where \<open>self.name\<close> is
  the attribute the descriptor was bound to by \<open>__set_name__\<close>; the argument \<open>store\<close> is
  that write. \<open>__get__\<close> reads the same entry and gives \<open>None\<close> when it is absent, so a
  field of the records below holds \<open>PyNone\<close> until it is first stored.
\<close>

type_synonym ('a, 's) outcome = "(py_error + 'a) \<times> 's"

definition Name_set :: "unicode_db \<Rightarrow> (pyval \<Rightarrow> 's \<Rightarrow> 's) \<Rightarrow> 's \<Rightarrow> pyval \<Rightarrow> (unit, 's) outcome" where
  "Name_set U store instance v =
     (if \<not> isinstance_str v \<or> length (str_strip U (str_value v)) < 2
      then (Inl (ValueError Name_message), instance)
      else (Inr (), store v instance))"

definition Age_set :: "(pyval \<Rightarrow> 's \<Rightarrow> 's) \<Rightarrow> 's \<Rightarrow> pyval \<Rightarrow> (unit, 's) outcome" where
  "Age_set store instance v =
     (if \<not> isinstance_int v \<or> \<not> (0 < int_value v \<and> int_value v < 100)
      then (Inl (ValueError Age_message), instance)
      else (Inr (), store v instance))"

definition Phone_set :: "unicode_db \<Rightarrow> (pyval \<Rightarrow> 's \<Rightarrow> 's) \<Rightarrow> 's \<Rightarrow> pyval \<Rightarrow> (unit, 's) outcome" where
  "Phone_set U store instance v =
     (if \<not> isinstance_str v \<or> \<not> str_isdigit U (str_value v)
         \<or> \<not> (10 \<le> length (str_value v) \<and> length (str_value v) \<le> 11)
      then (Inl (ValueError Phone_message), instance)
      else (Inr (), store v instance))"

section \<open>Pet\<close>

record appointment =
  date :: pyval
  comment :: pyval

record Pet =
  name :: pyval
  age :: pyval
  scheduled_appointment :: pyval
  past_appointments :: "appointment list"

text \<open>The object before \<open>__init__\<close> runs: nothing is stored yet.\<close>

definition Pet_new :: Pet where
  "Pet_new = \<lparr>name = PyNone, age = PyNone, scheduled_appointment = PyNone,
              past_appointments = []\<rparr>"

definition Pet_set_name :: "unicode_db \<Rightarrow> Pet \<Rightarrow> pyval \<Rightarrow> (unit, Pet) outcome" where
  "Pet_set_name U = Name_set U (\<lambda>v p. p\<lparr>name := v\<rparr>)"

definition Pet_set_age :: "Pet \<Rightarrow> pyval \<Rightarrow> (unit, Pet) outcome" where
  "Pet_set_age = Age_set (\<lambda>v p. p\<lparr>age := v\<rparr>)"

text \<open>
  \<open>Pet(name, age)\<close>: an exception in \<open>__init__\<close> leaves the caller without the object.
\<close>

definition Pet_init :: "unicode_db \<Rightarrow> pyval \<Rightarrow> pyval \<Rightarrow> py_error + Pet" where
  "Pet_init U n a =
     (case Pet_set_name U Pet_new n of
        (Inl e, _) \<Rightarrow> Inl e
      | (Inr _, p1) \<Rightarrow>
          (case Pet_set_age p1 a of
             (Inl e, _) \<Rightarrow> Inl e
           | (Inr _, p2) \<Rightarrow> Inr (p2\<lparr>scheduled_appointment := PyNone, past_appointments := []\<rparr>)))"

definition add_appointment :: "Pet \<Rightarrow> pyval \<Rightarrow> (unit, Pet) outcome" where
  "add_appointment self d =
     (if scheduled_appointment self \<noteq> PyNone
      then (Inl (ValueError Appointment_message), self)
      else (Inr (), self\<lparr>scheduled_appointment := d\<rparr>))"

definition complete_appointment :: "Pet \<Rightarrow> pyval \<Rightarrow> (unit, Pet) outcome" where
  "complete_appointment self c =
     (Inr (), self\<lparr>past_appointments :=
                      past_appointments self @ [\<lparr>date = scheduled_appointment self, comment = c\<rparr>],
                    scheduled_appointment := PyNone\<rparr>)"

section \<open>Client\<close>

record Client =
  name :: pyval
  phone :: pyval
  pets :: "Pet list"

definition Client_new :: Client where
  "Client_new = \<lparr>name = PyNone, phone = PyNone, pets = []\<rparr>"

definition Client_set_name :: "unicode_db \<Rightarrow> Client \<Rightarrow> pyval \<Rightarrow> (unit, Client) outcome" where
  "Client_set_name U = Name_set U (\<lambda>v c. c\<lparr>name := v\<rparr>)"

definition Client_set_phone :: "unicode_db \<Rightarrow> Client \<Rightarrow> pyval \<Rightarrow> (unit, Client) outcome" where
  "Client_set_phone U = Phone_set U (\<lambda>v c. c\<lparr>phone := v\<rparr>)"

definition Client_init :: "unicode_db \<Rightarrow> pyval \<Rightarrow> pyval \<Rightarrow> py_error + Client" where
  "Client_init U n ph =
     (case Client_set_name U Client_new n of
        (Inl e, _) \<Rightarrow> Inl e
      | (Inr _, c1) \<Rightarrow>
          (case Client_set_phone U c1 ph of
             (Inl e, _) \<Rightarrow> Inl e
           | (Inr _, c2) \<Rightarrow> Inr (c2\<lparr>pets := []\<rparr>)))"

definition add_pet :: "Client \<Rightarrow> Pet \<Rightarrow> Client" where
  "add_pet self pet = self\<lparr>pets := pets self @ [pet]\<rparr>"


section \<open>Database\<close>

text \<open>
  The file system maps a file name to the content of the file, if it exists. What
  \<open>pickle.dump\<close> writes for a list of clients and what \<open>pickle.load\<close> makes of a
  file's content belong to the Python library, not to this repository: the pair is a
  parameter, and so is the type of a file's content.
\<close>

type_synonym 'b filesystem = "pystr \<rightharpoonup> 'b"

record 'b pickle =
  dump :: "Client list \<Rightarrow> 'b"
  load :: "'b \<Rightarrow> py_error + Client list"

record Database =
  filename :: pystr
  clients :: "Client list"

text \<open>\<open>open(self.filename, 'rb')\<close> raises \<open>FileNotFoundError\<close> when the file does not exist.\<close>

definition open_rb :: "'b filesystem \<Rightarrow> pystr \<Rightarrow> py_error + 'b" where
  "open_rb fs f = (case fs f of None \<Rightarrow> Inl FileNotFoundError | Some b \<Rightarrow> Inr b)"

text \<open>
  \<open>load\<close>: the \<open>except\<close> clause catches \<open>FileNotFoundError\<close> from the whole \<open>try\<close>
  block; any other exception propagates, and then \<open>self.clients\<close> was not assigned.
\<close>

definition Database_load :: "'b pickle \<Rightarrow> 'b filesystem \<Rightarrow> Database \<Rightarrow> (unit, Database) outcome" where
  "Database_load P fs self =
     (case (case open_rb fs (filename self) of Inl e \<Rightarrow> Inl e | Inr b \<Rightarrow> load P b) of
        Inr cs \<Rightarrow> (Inr (), self\<lparr>clients := cs\<rparr>)
      | Inl e \<Rightarrow>
          (if e = FileNotFoundError then (Inr (), self\<lparr>clients := []\<rparr>) else (Inl e, self)))"



definition add_client :: "Database \<Rightarrow> Client \<Rightarrow> Database" where
  "add_client self client = self\<lparr>clients := clients self @ [client]\<rparr>"

text \<open>\<open>value.lower()\<close>: only a \<open>str\<close> has the method.\<close>

definition py_lower :: "unicode_db \<Rightarrow> pyval \<Rightarrow> py_error + pystr" where
  "py_lower U v = (if isinstance_str v then Inr (lower U (str_value v)) else Inl AttributeError)"

text \<open>
  The list comprehension of \<open>find_clients_by_name\<close>: for each client in order, the
  condition evaluates \<open>client.name.lower()\<close>, then \<open>name.lower()\<close>, then compares; the
  first exception ends the comprehension.
\<close>

fun find_comprehension :: "unicode_db \<Rightarrow> pyval \<Rightarrow> Client list \<Rightarrow> py_error + Client list" where
  "find_comprehension U n [] = Inr []"
| "find_comprehension U n (client # rest) =
     (case py_lower U (name client) of
        Inl e \<Rightarrow> Inl e
      | Inr a \<Rightarrow>
          (case py_lower U n of
             Inl e \<Rightarrow> Inl e
           | Inr b \<Rightarrow>
               (case find_comprehension U n rest of
                  Inl e \<Rightarrow> Inl e
                | Inr found \<Rightarrow> Inr (if a = b then client # found else found))))"

definition find_clients_by_name :: "unicode_db \<Rightarrow> Database \<Rightarrow> pyval \<Rightarrow> py_error + Client list" where
  "find_clients_by_name U self n = find_comprehension U n (clients self)"

text \<open>A client's name equals the query after lowercasing both sides.\<close>

definition name_matches :: "unicode_db \<Rightarrow> pystr \<Rightarrow> Client \<Rightarrow> bool" where
  "name_matches U q client =
     (isinstance_str (name client) \<and> lower U (str_value (name client)) = lower U q)"

section \<open>Example objects\<close>

text \<open>
  Rex, three years old, with an appointment pending; Anna, who owns Rex, and Bob; a
  pickle whose file content is the list itself.
\<close>

definition rex :: Pet where
  "rex = \<lparr>Pet.name = PyStr (py ''Rex''), age = PyInt 3,
          scheduled_appointment = PyStr (py ''2024-05-01''), past_appointments = []\<rparr>"

definition tom :: Pet where
  "tom = \<lparr>Pet.name = PyStr (py ''Tom''), age = PyInt 7, scheduled_appointment = PyNone,
          past_appointments = [\<lparr>date = PyStr (py ''2024-01-15''), comment = PyStr (py ''ok'')\<rparr>]\<rparr>"

definition anna :: Client where
  "anna = \<lparr>Client.name = PyStr (py ''Anna''), phone = PyStr (py ''0123456789''), pets = [rex, tom]\<rparr>"

definition bob :: Client where
  "bob = \<lparr>Client.name = PyStr (py ''Bob''), phone = PyStr (py ''89001234567''), pets = []\<rparr>"

definition clinic :: Database where
  "clinic = \<lparr>filename = py ''database.pkl'', clients = [anna, bob]\<rparr>"

definition transparent_pickle :: "(Client list) pickle" where
  "transparent_pickle = \<lparr>dump = (\<lambda>cs. cs), load = (\<lambda>b. Inr b)\<rparr>"

section \<open>The descriptors accept and reject\<close>

lemma Name_set_fail:
  "\<not> isinstance_str v \<or> length (str_strip U (str_value v)) < 2 \<Longrightarrow>
   Name_set U store instance v = (Inl (ValueError Name_message), instance)"
  by (simp add: Name_set_def)

lemma Name_set_ok:
  "isinstance_str v \<Longrightarrow> 2 \<le> length (str_strip U (str_value v)) \<Longrightarrow>
   Name_set U store instance v = (Inr (), store v instance)"
  by (simp add: Name_set_def)

lemma Age_set_fail:
  "\<not> isinstance_int v \<or> int_value v \<le> 0 \<or> 100 \<le> int_value v \<Longrightarrow>
   Age_set store instance v = (Inl (ValueError Age_message), instance)"
  by (auto simp add: Age_set_def)

lemma Age_set_ok:
  "isinstance_int v \<Longrightarrow> 1 \<le> int_value v \<Longrightarrow> int_value v \<le> 99 \<Longrightarrow>
   Age_set store instance v = (Inr (), store v instance)"
  by (simp add: Age_set_def)


lemma Phone_set_ok:
  "isinstance_str v \<Longrightarrow> str_isdigit U (str_value v) \<Longrightarrow>
   10 \<le> length (str_value v) \<Longrightarrow> length (str_value v) \<le> 11 \<Longrightarrow>
   Phone_set U store instance v = (Inr (), store v instance)"
  by (simp add: Phone_set_def)

section \<open>The constructors\<close>


lemma Pet_init_Inl:
  "Pet_init U n a = Inl e \<Longrightarrow> ValidationError e"
  by (auto simp add: Pet_init_def Pet_set_name_def Pet_set_age_def Name_set_def
      Age_set_def ValidationError_def split: if_splits)


lemma Pet_init_bad_age:
  assumes "\<not> isinstance_int a \<or> int_value a \<le> 0 \<or> 100 \<le> int_value a"
  shows "\<exists>e. Pet_init U n a = Inl e"
  using assms
  by (auto simp add: Pet_init_def Pet_set_name_def Pet_set_age_def Name_set_def Age_set_def)

lemma Client_init_bad_name:
  assumes "\<not> isinstance_str n \<or> length (str_strip U (str_value n)) < 2"
  shows "Client_init U n ph = Inl (ValueError Name_message)"
  using assms by (auto simp add: Client_init_def Client_set_name_def Name_set_def)

lemma Pet_init_bad_name:
  assumes "\<not> isinstance_str n \<or> length (str_strip U (str_value n)) < 2"
  shows "Pet_init U n a = Inl (ValueError Name_message)"
  using assms by (auto simp add: Pet_init_def Pet_set_name_def Name_set_def)

lemma Client_init_name_str:
  "Client_init U n ph = Inr c \<Longrightarrow> isinstance_str (name c) \<and> name c = n \<and> phone c = ph \<and> pets c = []"
  by (auto simp add: Client_init_def Client_set_name_def Client_set_phone_def Name_set_def
      Phone_set_def Client_new_def split: if_splits)

text \<open>
  The example of the specification: \<open>Pet("Rex", 3)\<close> is constructed, a first
  appointment is accepted, a second one is refused, and completing moves the first into
  the history.
\<close>

lemma Pet_lifecycle_example:
  "Pet_init latin1 (PyStr (py ''Rex'')) (PyInt 3)
     = Inr \<lparr>Pet.name = PyStr (py ''Rex''), age = PyInt 3, scheduled_appointment = PyNone,
            past_appointments = []\<rparr>"
  "add_appointment \<lparr>Pet.name = PyStr (py ''Rex''), age = PyInt 3,
       scheduled_appointment = PyNone, past_appointments = []\<rparr> (PyStr (py ''2024-05-01''))
     = (Inr (), rex)"
  "fst (add_appointment rex (PyStr (py ''2024-06-01''))) = Inl (ValueError Appointment_message)"
  "snd (complete_appointment rex (PyStr (py ''healthy'')))
     = \<lparr>Pet.name = PyStr (py ''Rex''), age = PyInt 3, scheduled_appointment = PyNone,
         past_appointments =
           [\<lparr>date = PyStr (py ''2024-05-01''), comment = PyStr (py ''healthy'')\<rparr>]\<rparr>"
  by (simp_all add: Pet_init_def Pet_set_name_def Pet_set_age_def Name_set_def Age_set_def
      Pet_new_def str_strip_def latin1_def latin1_isspace_def py_def add_appointment_def
      complete_appointment_def rex_def)

section \<open>Searching the store\<close>

text \<open>
  Clients enter the store through \<open>Client(name, phone)\<close> and \<open>add_client\<close>, so their
  names are strings.
\<close>

lemma add_client_names_str:
  assumes "\<forall>c\<in>set (clients db). isinstance_str (name c)"
    and "Client_init U n ph = Inr client"
  shows "\<forall>c\<in>set (clients (add_client db client)). isinstance_str (name c)"
  using assms Client_init_name_str [of U n ph client] by (auto simp add: add_client_def)

lemma find_comprehension_filter:
  "\<forall>c\<in>set cs. isinstance_str (name c) \<Longrightarrow>
   find_comprehension U (PyStr q) cs = Inr (filter (name_matches U q) cs)"
  by (induction cs) (simp_all add: py_lower_def name_matches_def)

lemma find_comprehension_cong:
  "lower U q = lower U q' \<Longrightarrow>
   find_comprehension U (PyStr q') cs = find_comprehension U (PyStr q) cs"
  by (induction cs) (simp_all add: py_lower_def split: sum.splits)

section \<open>Pet: appointments\<close>

text \<open>
  Claim C1. For every pet with an appointment \<open>d\<close> scheduled,
  \<open>complete_appointment(comment)\<close> returns without raising, appends exactly the record
  with date \<open>d\<close> and the given comment to \<open>past_appointments\<close> (the history is one
  longer and its earlier records are the same, in order), sets
  \<open>scheduled_appointment\<close> to \<open>None\<close> and leaves name and age as they were.
\<close>

theorem complete_appointment_scheduled:
  assumes "scheduled_appointment p = d" and "d \<noteq> PyNone"
  shows "fst (complete_appointment p c) = Inr ()
    \<and> past_appointments (snd (complete_appointment p c))
        = past_appointments p @ [\<lparr>date = d, comment = c\<rparr>]
    \<and> length (past_appointments (snd (complete_appointment p c)))
        = length (past_appointments p) + 1
    \<and> take (length (past_appointments p)) (past_appointments (snd (complete_appointment p c)))
        = past_appointments p
    \<and> scheduled_appointment (snd (complete_appointment p c)) = PyNone
    \<and> Pet.name (snd (complete_appointment p c)) = Pet.name p
    \<and> age (snd (complete_appointment p c)) = age p"
  using assms by (simp add: complete_appointment_def)

text \<open>Rex has \<open>2024-05-01\<close> pending and is found healthy.\<close>

theorem complete_appointment_scheduled_witness:
  "scheduled_appointment rex = PyStr (py ''2024-05-01'') \<and> PyStr (py ''2024-05-01'') \<noteq> PyNone
   \<and> complete_appointment rex (PyStr (py ''healthy''))
      = (Inr (), \<lparr>Pet.name = PyStr (py ''Rex''), age = PyInt 3, scheduled_appointment = PyNone,
           past_appointments = [\<lparr>date = PyStr (py ''2024-05-01''), comment = PyStr (py ''healthy'')\<rparr>]\<rparr>)"
proof -
  have h: "scheduled_appointment rex = PyStr (py ''2024-05-01'')" by (simp add: rex_def)
  have n: "PyStr (py ''2024-05-01'') \<noteq> PyNone" by simp
  from complete_appointment_scheduled [OF h n, of "PyStr (py ''healthy'')"] h
  show ?thesis by (simp add: rex_def complete_appointment_def)
qed

text \<open>
  Claim C2. For every pet whose \<open>scheduled_appointment\<close> is not \<open>None\<close>,
  \<open>add_appointment\<close> with any date raises the \<open>ValueError\<close> that the specification
  calls \<open>ConflictError\<close>, and the pet, its pending appointment included, is unchanged.
\<close>

theorem add_appointment_conflict:
  assumes "scheduled_appointment p \<noteq> PyNone"
  shows "add_appointment p d = (Inl (ValueError Appointment_message), p)
    \<and> ConflictError (ValueError Appointment_message)"
  using assms by (simp add: add_appointment_def ConflictError_def)

text \<open>A second date for Rex is refused and the first one stays.\<close>

theorem add_appointment_conflict_witness:
  "scheduled_appointment rex \<noteq> PyNone
   \<and> add_appointment rex (PyStr (py ''2024-06-01'')) = (Inl (ValueError Appointment_message), rex)
   \<and> scheduled_appointment (snd (add_appointment rex (PyStr (py ''2024-06-01''))))
       = PyStr (py ''2024-05-01'')"
proof -
  have h: "scheduled_appointment rex \<noteq> PyNone" by (simp add: rex_def)
  from add_appointment_conflict [OF h, of "PyStr (py ''2024-06-01'')"] h
  show ?thesis by (simp add: rex_def)
qed

text \<open>
  Claim C10. For every pet whose \<open>scheduled_appointment\<close> is \<open>None\<close>,
  \<open>complete_appointment(comment)\<close> does not raise: it appends a record whose date is
  \<open>None\<close> with the given comment, and \<open>scheduled_appointment\<close> is still \<open>None\<close>.
  The method has no guard of its own.
\<close>

theorem complete_appointment_unscheduled:
  assumes "scheduled_appointment p = PyNone"
  shows "complete_appointment p c
     = (Inr (), p\<lparr>past_appointments := past_appointments p @ [\<lparr>date = PyNone, comment = c\<rparr>]\<rparr>)
   \<and> scheduled_appointment (snd (complete_appointment p c)) = PyNone"
  using assms by (simp add: complete_appointment_def)

text \<open>Tom has nothing pending; completing adds an undated second record.\<close>

theorem complete_appointment_unscheduled_witness:
  "scheduled_appointment tom = PyNone
   \<and> complete_appointment tom (PyStr (py ''fine''))
      = (Inr (), \<lparr>Pet.name = PyStr (py ''Tom''), age = PyInt 7, scheduled_appointment = PyNone,
           past_appointments = [\<lparr>date = PyStr (py ''2024-01-15''), comment = PyStr (py ''ok'')\<rparr>,
                                \<lparr>date = PyNone, comment = PyStr (py ''fine'')\<rparr>]\<rparr>)"
proof -
  have h: "scheduled_appointment tom = PyNone" by (simp add: tom_def)
  from complete_appointment_unscheduled [OF h, of "PyStr (py ''fine'')"] h
  show ?thesis by (simp add: tom_def)
qed

section \<open>The validated fields\<close>




text \<open>
  Claim C5. For every integer \<open>a\<close> with \<open>a \<le> 0\<close> or \<open>a \<ge> 100\<close>, constructing a pet of
  age \<open>a\<close> fails with a \<open>ValidationError\<close>, and so does assigning \<open>a\<close> to the age.
  Assigning an age succeeds if and only if the value is an \<open>int\<close> (as \<open>isinstance\<close> has
  it, so \<open>True\<close>, which equals 1, counts) with \<open>1 \<le> value \<le> 99\<close>, and then the value
  is stored unchanged.
\<close>

theorem age_valid_iff:
  "(a \<le> 0 \<or> 100 \<le> a \<longrightarrow> (\<exists>e. Pet_init U n (PyInt a) = Inl e \<and> ValidationError e)
       \<and> Pet_set_age p (PyInt a) = (Inl (ValueError Age_message), p))
   \<and> (fst (Pet_set_age p v) = Inr () \<longleftrightarrow>
        isinstance_int v \<and> 1 \<le> int_value v \<and> int_value v \<le> 99)
   \<and> (fst (Pet_set_age p v) = Inr () \<longrightarrow> snd (Pet_set_age p v) = p\<lparr>age := v\<rparr>)"
proof (intro conjI impI)
  assume "a \<le> 0 \<or> 100 \<le> a"
  then have rejected: "\<not> isinstance_int (PyInt a) \<or> int_value (PyInt a) \<le> 0 \<or> 100 \<le> int_value (PyInt a)"
    by simp
  from Pet_init_bad_age [OF rejected] obtain e where "Pet_init U n (PyInt a) = Inl e" ..
  then show "\<exists>e. Pet_init U n (PyInt a) = Inl e \<and> ValidationError e"
    using Pet_init_Inl by blast
  show "Pet_set_age p (PyInt a) = (Inl (ValueError Age_message), p)"
    unfolding Pet_set_age_def using rejected by (rule Age_set_fail)
next
  show "fst (Pet_set_age p v) = Inr () \<longleftrightarrow>
        isinstance_int v \<and> 1 \<le> int_value v \<and> int_value v \<le> 99"
    by (auto simp add: Pet_set_age_def Age_set_def)
next
  assume "fst (Pet_set_age p v) = Inr ()"
  then show "snd (Pet_set_age p v) = p\<lparr>age := v\<rparr>"
    by (simp add: Pet_set_age_def Age_set_def split: if_splits)
qed

text \<open>Ages 100 and 0 are refused at construction; 99 is stored.\<close>

theorem age_valid_iff_witness:
  "((100::int) \<le> 0 \<or> (100::int) \<le> 100)
   \<and> Pet_init latin1 (PyStr (py ''Rex'')) (PyInt 100) = Inl (ValueError Age_message)
   \<and> Pet_init latin1 (PyStr (py ''Rex'')) (PyInt 0) = Inl (ValueError Age_message)
   \<and> isinstance_int (PyInt 99) \<and> Pet_set_age rex (PyInt 99) = (Inr (), rex\<lparr>age := PyInt 99\<rparr>)"
proof -
  have big: "(100::int) \<le> 0 \<or> (100::int) \<le> 100" by simp
  have init: "Pet_init latin1 (PyStr (py ''Rex'')) (PyInt 100) = Inl (ValueError Age_message)"
    "Pet_init latin1 (PyStr (py ''Rex'')) (PyInt 0) = Inl (ValueError Age_message)"
    by (simp_all add: Pet_init_def Pet_set_name_def Pet_set_age_def Name_set_def Age_set_def
        str_strip_def latin1_def latin1_isspace_def py_def)
  from age_valid_iff [of 100 latin1 "PyStr (py ''Rex'')" rex "PyInt 99"] big init
  show ?thesis by (metis prod.collapse isinstance_int.simps(1) int_value.simps(1) one_le_numeral order_refl)
qed

text \<open>
  Claim C6. For every string whose length after \<open>strip()\<close> is less than 2, constructing
  a client or a pet with that name, and assigning it to the name of a client or a pet,
  fails with the \<open>ValueError\<close> of the name rule (a \<open>ValidationError\<close>). Assigning a
  name succeeds if and only if the value is a \<open>str\<close> whose stripped length is at least 2,
  and then the value is stored unchanged (not stripped).
\<close>

theorem name_valid_iff:
  "(length (str_strip U s) < 2 \<longrightarrow>
       Client_init U (PyStr s) ph = Inl (ValueError Name_message)
     \<and> Pet_init U (PyStr s) a = Inl (ValueError Name_message)
     \<and> Client_set_name U c (PyStr s) = (Inl (ValueError Name_message), c)
     \<and> Pet_set_name U p (PyStr s) = (Inl (ValueError Name_message), p)
     \<and> ValidationError (ValueError Name_message))
   \<and> (fst (Client_set_name U c v) = Inr () \<longleftrightarrow> (\<exists>t. v = PyStr t \<and> 2 \<le> length (str_strip U t)))
   \<and> (fst (Pet_set_name U p v) = Inr () \<longleftrightarrow> (\<exists>t. v = PyStr t \<and> 2 \<le> length (str_strip U t)))
   \<and> (fst (Client_set_name U c v) = Inr () \<longrightarrow> snd (Client_set_name U c v) = c\<lparr>name := v\<rparr>)
   \<and> (fst (Pet_set_name U p v) = Inr () \<longrightarrow> snd (Pet_set_name U p v) = p\<lparr>Pet.name := v\<rparr>)"
proof (intro conjI impI)
  assume "length (str_strip U s) < 2"
  then have rejected: "\<not> isinstance_str (PyStr s) \<or> length (str_strip U (str_value (PyStr s))) < 2"
    by simp
  show "Client_init U (PyStr s) ph = Inl (ValueError Name_message)"
    using rejected by (rule Client_init_bad_name)
  show "Pet_init U (PyStr s) a = Inl (ValueError Name_message)"
    using rejected by (rule Pet_init_bad_name)
  show "Client_set_name U c (PyStr s) = (Inl (ValueError Name_message), c)"
    unfolding Client_set_name_def using rejected by (rule Name_set_fail)
  show "Pet_set_name U p (PyStr s) = (Inl (ValueError Name_message), p)"
    unfolding Pet_set_name_def using rejected by (rule Name_set_fail)
  show "ValidationError (ValueError Name_message)"
    by (simp add: ValidationError_def)
next
  show "fst (Client_set_name U c v) = Inr () \<longleftrightarrow> (\<exists>t. v = PyStr t \<and> 2 \<le> length (str_strip U t))"
    by (cases v) (auto simp add: Client_set_name_def Name_set_def)
  show "fst (Pet_set_name U p v) = Inr () \<longleftrightarrow> (\<exists>t. v = PyStr t \<and> 2 \<le> length (str_strip U t))"
    by (cases v) (auto simp add: Pet_set_name_def Name_set_def)
next
  assume "fst (Client_set_name U c v) = Inr ()"
  then show "snd (Client_set_name U c v) = c\<lparr>name := v\<rparr>"
    by (simp add: Client_set_name_def Name_set_def split: if_splits)
next
  assume "fst (Pet_set_name U p v) = Inr ()"
  then show "snd (Pet_set_name U p v) = p\<lparr>Pet.name := v\<rparr>"
    by (simp add: Pet_set_name_def Name_set_def split: if_splits)
qed

text \<open>\<open>" R  "\<close> strips to one character and is refused; \<open>" Rex "\<close> is stored as it is.\<close>

theorem name_valid_iff_witness:
  "length (str_strip latin1 (py '' R  '')) < 2
   \<and> Pet_init latin1 (PyStr (py '' R  '')) (PyInt 3) = Inl (ValueError Name_message)
   \<and> Client_set_name latin1 anna (PyStr (py '' R  '')) = (Inl (ValueError Name_message), anna)
   \<and> 2 \<le> length (str_strip latin1 (py '' Rex ''))
   \<and> Pet_set_name latin1 tom (PyStr (py '' Rex '')) = (Inr (), tom\<lparr>Pet.name := PyStr (py '' Rex '')\<rparr>)"
proof -
  have short: "length (str_strip latin1 (py '' R  '')) < 2"
    by (simp add: str_strip_def latin1_def latin1_isspace_def py_def)
  have long: "2 \<le> length (str_strip latin1 (py '' Rex ''))"
    by (simp add: str_strip_def latin1_def latin1_isspace_def py_def)
  from name_valid_iff [of latin1 "py '' R  ''" _ "PyInt 3" anna tom "PyStr (py '' Rex '')"] short long
  show ?thesis by (metis prod.collapse)
qed

text \<open>
  Claim C8. For every pet and client, an assignment to name, age or phone that raises
  raises a \<open>ValidationError\<close> and leaves the whole object, and so the value stored
  before in that field, as it was.
\<close>

theorem rejected_assignment_keeps_state:
  "(fst (Pet_set_name U p v) = Inl e \<longrightarrow>
       ValidationError e \<and> snd (Pet_set_name U p v) = p)
   \<and> (fst (Pet_set_age p v) = Inl e \<longrightarrow>
       ValidationError e \<and> snd (Pet_set_age p v) = p)
   \<and> (fst (Client_set_name U c v) = Inl e \<longrightarrow>
       ValidationError e \<and> snd (Client_set_name U c v) = c)
   \<and> (fst (Client_set_phone U c v) = Inl e \<longrightarrow>
       ValidationError e \<and> snd (Client_set_phone U c v) = c)"
  by (simp add: Pet_set_name_def Pet_set_age_def Client_set_name_def Client_set_phone_def
      Name_set_def Age_set_def Phone_set_def ValidationError_def split: if_splits)

text \<open>Rex keeps his name and age, Anna her phone.\<close>

theorem rejected_assignment_keeps_state_witness:
  "Pet_set_name latin1 rex (PyStr (py ''X'')) = (Inl (ValueError Name_message), rex)
   \<and> Pet.name (snd (Pet_set_name latin1 rex (PyStr (py ''X'')))) = PyStr (py ''Rex'')
   \<and> Pet_set_age rex (PyInt 100) = (Inl (ValueError Age_message), rex)
   \<and> age (snd (Pet_set_age rex (PyInt 100))) = PyInt 3
   \<and> Client_set_phone latin1 anna (PyStr (py ''12345'')) = (Inl (ValueError Phone_message), anna)
   \<and> phone (snd (Client_set_phone latin1 anna (PyStr (py ''12345'')))) = PyStr (py ''0123456789'')"
proof -
  have n: "fst (Pet_set_name latin1 rex (PyStr (py ''X''))) = Inl (ValueError Name_message)"
    by (simp add: Pet_set_name_def Name_set_def str_strip_def latin1_def latin1_isspace_def py_def)
  have a: "fst (Pet_set_age rex (PyInt 100)) = Inl (ValueError Age_message)"
    by (simp add: Pet_set_age_def Age_set_def)
  have ph: "fst (Client_set_phone latin1 anna (PyStr (py ''12345''))) = Inl (ValueError Phone_message)"
    by (simp add: Client_set_phone_def Phone_set_def py_def)
  have r: "Pet.name rex = PyStr (py ''Rex'')" "age rex = PyInt 3" "phone anna = PyStr (py ''0123456789'')"
    by (simp_all add: rex_def anna_def)
  from rejected_assignment_keeps_state [of latin1 rex "PyStr (py ''X'')" "ValueError Name_message"]
    rejected_assignment_keeps_state [of latin1 rex "PyInt 100" "ValueError Age_message"]
    rejected_assignment_keeps_state [of latin1 _ "PyStr (py ''12345'')" "ValueError Phone_message" anna]
    n a ph r
  show ?thesis by (metis prod.collapse)
qed

section \<open>The record store\<close>



text \<open>
  Claim C9. When the file named by the store does not exist, \<open>load\<close> does not raise and
  sets the store's clients to the empty list.
\<close>

theorem load_missing_file:
  assumes "fs (filename db) = None"
  shows "Database_load P fs db = (Inr (), db\<lparr>clients := []\<rparr>)"
  using assms by (simp add: Database_load_def open_rb_def)

text \<open>Loading the clinic from an empty file system forgets Anna and Bob.\<close>

theorem load_missing_file_witness:
  "(Map.empty :: (Client list) filesystem) (filename clinic) = None
   \<and> Database_load transparent_pickle Map.empty clinic
       = (Inr (), \<lparr>filename = py ''database.pkl'', clients = []\<rparr>)"
proof -
  have h: "(Map.empty :: (Client list) filesystem) (filename clinic) = None" by simp
  from load_missing_file [OF h, of transparent_pickle] show ?thesis by (simp add: clinic_def)
qed

text \<open>
  Claim C7. In a store whose clients all have a \<open>str\<close> as name (which the name
  descriptor guarantees for every constructed client), \<open>find_clients_by_name\<close> returns
  exactly the clients whose lowercased name equals the lowercased query, in store order;
  and two queries that are equal after lowercasing get the same result.
\<close>

theorem find_clients_by_name_case_insensitive:
  assumes "\<forall>c\<in>set (clients db). isinstance_str (name c)"
  shows "find_clients_by_name U db (PyStr q) = Inr (filter (name_matches U q) (clients db))
    \<and> (lower U q' = lower U q \<longrightarrow>
         find_clients_by_name U db (PyStr q') = find_clients_by_name U db (PyStr q))"
proof (intro conjI impI)
  show "find_clients_by_name U db (PyStr q) = Inr (filter (name_matches U q) (clients db))"
    using assms unfolding find_clients_by_name_def by (rule find_comprehension_filter)
next
  assume "lower U q' = lower U q"
  then have "lower U q = lower U q'" by simp
  then show "find_clients_by_name U db (PyStr q') = find_clients_by_name U db (PyStr q)"
    unfolding find_clients_by_name_def by (rule find_comprehension_cong)
qed

text \<open>\<open>Anna\<close> and \<open>ANNA\<close> both find Anna and not Bob.\<close>

theorem find_clients_by_name_case_insensitive_witness:
  "list_all (\<lambda>c. isinstance_str (name c)) (clients clinic)
   \<and> lower latin1 (py ''ANNA'') = lower latin1 (py ''Anna'')
   \<and> find_clients_by_name latin1 clinic (PyStr (py ''Anna'')) = Inr [anna]
   \<and> find_clients_by_name latin1 clinic (PyStr (py ''ANNA'')) = Inr [anna]"
proof -
  have h: "\<forall>c\<in>set (clients clinic). isinstance_str (name c)"
    by (simp add: clinic_def anna_def bob_def)
  have l: "lower latin1 (py ''ANNA'') = lower latin1 (py ''Anna'')"
    by (simp add: latin1_def latin1_lower_def py_def)
  have m: "filter (name_matches latin1 (py ''Anna'')) (clients clinic) = [anna]"
    by (simp add: clinic_def anna_def bob_def name_matches_def latin1_def latin1_lower_def py_def)
  have strs: "list_all (\<lambda>c. isinstance_str (name c)) (clients clinic)"
    using h by (simp add: list_all_iff)
  from find_clients_by_name_case_insensitive [OF h, of latin1 "py ''Anna''" "py ''ANNA''"] strs l m
  show ?thesis by simp
qed

end
